theory Spec2Isabelle
  imports Main "HOL-Library.Word"
begin

unbundle bit_operations_syntax

section \<open>Data model\<close>

text \<open>
  The two source files are \<^verbatim>\<open>cores/arduino/drivers/adc/adc.cpp\<close> (the ADC driver) and
  \<^verbatim>\<open>cores/arduino/wiring_digital.cpp\<close> (the Arduino pin API). Both are sequences of
  calls into the vendor peripheral library, guarded by assertions and by a few tests.
  The embedding threads a \<open>world\<close> through every function: the part of the hardware
  the code reads back, the ADC device structs, the list of vendor calls made so far, and
  the list of assertions that failed so far.
\<close>

type_synonym u8 = "8 word"
type_synonym u16 = "16 word"
type_synonym u32 = "32 word"

text \<open>\<^verbatim>\<open>gpio_pin_t\<close> is declared in a header that is not among the sources; pins are
  only compared with \<^verbatim>\<open>BOARD_NR_GPIO_PINS\<close> and used as indices, so they are natural
  numbers here. Peripheral register blocks (\<^verbatim>\<open>M4_ADC_TypeDef *\<close>,
  \<^verbatim>\<open>M4_DMA_TypeDef *\<close>) are their base addresses.\<close>

type_synonym gpio_pin_t = nat
type_synonym adc_reg = u32
type_synonym dma_reg = u32

subsection \<open>Enumerations of the vendor library that the code names\<close>

datatype en_functional_state_t = Disable | Enable
datatype en_flag_status_t = Reset | Set
datatype en_dma_irq_sel_t = TrnCpltIrq | BlkTrnCpltIrq
datatype en_adc_clren_t = AdcClren_Disable | AdcClren_Enable
datatype en_adc_rschsel_t = AdcRschsel_Continue | AdcRschsel_Restart
datatype en_dma_address_mode_t = AddressFix | AddressIncrease | AddressDecrease
datatype en_dma_transfer_width_t = Dma8Bit | Dma16Bit | Dma32Bit
datatype en_pin_mode_t = Pin_Mode_In | Pin_Mode_Out | Pin_Mode_Ana | Pin_Mode_Unknown nat
datatype en_port_func_t = Func_Gpio | Func_Other nat

text \<open>Clock gates of function clock group 0: the one the code names, and the one a device
  configuration carries as a number.\<close>

datatype fcg0_periph = PWC_FCG0_PERIPH_AOS | Fcg0_Periph u32

text \<open>A DMA source or destination address: the data register \<^verbatim>\<open>DR0\<close> of an ADC unit
  (\<^verbatim>\<open>&register_base->DR0\<close>) or a plain memory address.\<close>

datatype dma_address = DR0_of adc_reg | Mem_Addr u32

subsection \<open>Structs\<close>

record stc_adc_init_t =
  enResolution :: nat
  enDataAlign :: nat
  enAutoClear :: en_adc_clren_t
  enScanMode :: nat
  enRschsel :: en_adc_rschsel_t

record stc_dma_ch_cfg_t =
  enSrcInc :: en_dma_address_mode_t
  enDesInc :: en_dma_address_mode_t
  enSrcRptEn :: en_functional_state_t
  enDesRptEn :: en_functional_state_t
  enSrcNseqEn :: en_functional_state_t
  enDesNseqEn :: en_functional_state_t
  enTrnWidth :: en_dma_transfer_width_t
  enLlpEn :: en_functional_state_t
  enIntEn :: en_functional_state_t

record stc_dma_config_t =
  u16BlockSize :: u16
  u16TransferCnt :: u16
  u32SrcAddr :: dma_address
  u32DesAddr :: dma_address
  u16SrcRptSize :: u16
  u16DesRptSize :: u16
  stcDmaChCfg :: stc_dma_ch_cfg_t

record stc_adc_ch_cfg_t =
  u32Channel :: u32
  u8Sequence :: u8
  pu8SampTime :: u8

record stc_port_init_t =
  enPinMode :: en_pin_mode_t
  enPullUp :: en_functional_state_t

text \<open>\<^verbatim>\<open>adc_device_t\<close>, as the driver uses it: \<^verbatim>\<open>device->adc\<close>,
  \<^verbatim>\<open>device->dma\<close>, \<^verbatim>\<open>device->init_params\<close> and \<^verbatim>\<open>device->state\<close>.
  Both \<^verbatim>\<open>adc\<close> and \<^verbatim>\<open>dma\<close> have a \<^verbatim>\<open>register_base\<close> and a
  \<^verbatim>\<open>clock_id\<close>; the fields of the second are prefixed here. The result buffer
  \<^verbatim>\<open>state.conversion_results\<close> is the address of its first element.\<close>

record adc_peripheral_t =
  register_base :: adc_reg
  clock_id :: u32
  sequence :: u8
  channel_count :: nat

record adc_dma_t =
  dma_register_base :: dma_reg
  dma_clock_id :: u32
  channel :: u8
  event_source :: nat

record adc_init_params_t =
  resolution :: nat
  data_alignment :: nat
  scan_mode :: nat

record adc_state_t =
  initialized :: bool
  conversion_results :: u32

record adc_device_t =
  adc :: adc_peripheral_t
  dma :: adc_dma_t
  init_params :: adc_init_params_t
  state :: adc_state_t

subsection \<open>Vendor calls and the world\<close>

datatype vendor_call =
    PWC_Fcg3PeriphClockCmd_call u32 en_functional_state_t
  | ADC_Init_call adc_reg stc_adc_init_t
  | ADC_TriggerSrcCmd_call adc_reg u8 en_functional_state_t
  | PWC_Fcg0PeriphClockCmd_call fcg0_periph en_functional_state_t
  | DMA_InitChannel_call dma_reg u8 stc_dma_config_t
  | DMA_Cmd_call dma_reg en_functional_state_t
  | DMA_ChannelCmd_call dma_reg u8 en_functional_state_t
  | DMA_ClearIrqFlag_call dma_reg u8 en_dma_irq_sel_t
  | DMA_SetTriggerSrc_call dma_reg u8 nat
  | DMA_GetIrqFlag_call dma_reg u8 en_dma_irq_sel_t
  | ADC_AddAdcChannel_call adc_reg stc_adc_ch_cfg_t
  | ADC_DelAdcChannel_call adc_reg u32
  | ADC_StartConvert_call adc_reg
  | GPIO_SetFunc_call gpio_pin_t en_port_func_t en_functional_state_t
  | GPIO_Init_call gpio_pin_t stc_port_init_t
  | GPIO_GetConfig_call gpio_pin_t
  | GPIO_SetBits_call gpio_pin_t
  | GPIO_ResetBits_call gpio_pin_t
  | GPIO_GetBit_call gpio_pin_t
  | yield_call

text \<open>The hardware, as far as the code reads it back: the DMA interrupt flags, the memory
  the DMA writes conversion results to (read as 16-bit values at byte addresses), and per pin the
  port configuration, the selected function, the output latch and the input level.\<close>

record hardware =
  dma_irq_flag :: "dma_reg \<times> u8 \<times> en_dma_irq_sel_t \<Rightarrow> en_flag_status_t"
  memory :: "u32 \<Rightarrow> u16"
  port_config :: "gpio_pin_t \<Rightarrow> stc_port_init_t"
  port_func :: "gpio_pin_t \<Rightarrow> en_port_func_t \<times> en_functional_state_t"
  port_out :: "gpio_pin_t \<Rightarrow> bool"
  port_in :: "gpio_pin_t \<Rightarrow> bool"

text \<open>\<open>adc_devices\<close> is the store of \<^verbatim>\<open>adc_device_t\<close> structs: an
  \<^verbatim>\<open>adc_device_t *\<close> is a key of it, so two pins that name the same device share its
  state. \<open>calls\<close> lists the vendor calls in the order made, \<open>asserts\<close> the messages of
  the assertions that failed.\<close>

type_synonym adc_device_ptr = nat

record world =
  hw :: hardware
  adc_devices :: "adc_device_ptr \<Rightarrow> adc_device_t"
  calls :: "vendor_call list"
  asserts :: "string list"

section \<open>Assertions and vendor primitives\<close>

text \<open>A firmware image is either a debug build or a release build.\<close>

datatype build = Debug | Release

text \<open>Modelled from the spec: \<^verbatim>\<open>CORE_ASSERT\<close> and \<^verbatim>\<open>CORE_ASSERT_FAIL\<close> come from
  \<^verbatim>\<open>core_debug.h\<close>, which is not among the sources. The spec says of them that they
  "abort/log in debug builds and are compiled out in release builds". A failed assertion of
  a debug build is recorded in \<open>asserts\<close>; a release build records nothing. The functions
  below go on after a recorded failure, which is what a build that logs does; a build that
  halts stops at the first message recorded, so for it the world is meaningful up to the
  point where \<open>asserts\<close> first grows.\<close>

definition CORE_ASSERT :: "build \<Rightarrow> bool \<Rightarrow> string \<Rightarrow> world \<Rightarrow> world" where
  "CORE_ASSERT b expression message w =
     (if b = Debug \<and> \<not> expression then w\<lparr>asserts := asserts w @ [message]\<rparr> else w)"

definition CORE_ASSERT_FAIL :: "build \<Rightarrow> string \<Rightarrow> world \<Rightarrow> world" where
  "CORE_ASSERT_FAIL b message w = CORE_ASSERT b False message w"

text \<open>A vendor call that the model only records.\<close>

definition vendor :: "vendor_call \<Rightarrow> world \<Rightarrow> world" where
  "vendor c w = w\<lparr>calls := calls w @ [c]\<rparr>"

text \<open>A sequence of statements, run in the order written.\<close>

definition run :: "(world \<Rightarrow> world) list \<Rightarrow> world \<Rightarrow> world" where
  "run steps w = fold (\<lambda>step. step) steps w"

text \<open>Modelled from the spec: the vendor library is "an external, unmodifiable SDK" and
  its sources are not at hand. Of its effects the model keeps those the code reads back:
  \<^verbatim>\<open>DMA_ClearIrqFlag\<close> resets the flag that \<^verbatim>\<open>DMA_GetIrqFlag\<close> returns.\<close>

definition DMA_ClearIrqFlag :: "dma_reg \<Rightarrow> u8 \<Rightarrow> en_dma_irq_sel_t \<Rightarrow> world \<Rightarrow> world" where
  "DMA_ClearIrqFlag unit ch irq w =
     vendor (DMA_ClearIrqFlag_call unit ch irq)
       (w\<lparr>hw := (hw w)\<lparr>dma_irq_flag := (dma_irq_flag (hw w))((unit, ch, irq) := Reset)\<rparr>\<rparr>)"

definition DMA_GetIrqFlag ::
  "dma_reg \<Rightarrow> u8 \<Rightarrow> en_dma_irq_sel_t \<Rightarrow> world \<Rightarrow> en_flag_status_t \<times> world" where
  "DMA_GetIrqFlag unit ch irq w =
     (dma_irq_flag (hw w) (unit, ch, irq), vendor (DMA_GetIrqFlag_call unit ch irq) w)"

text \<open>Modelled from the spec: \<^verbatim>\<open>yield()\<close> is declared in \<^verbatim>\<open>yield.h\<close>, not among the
  sources; the spec calls it a cooperative yield. The call is recorded, and the rest of the
  system runs meanwhile: \<open>env\<close> is what it does to the hardware (the DMA engine raising
  its flags and writing results) between two polls.\<close>

definition yield :: "(hardware \<Rightarrow> hardware) \<Rightarrow> world \<Rightarrow> world" where
  "yield env w = vendor yield_call (w\<lparr>hw := env (hw w)\<rparr>)"

section \<open>The ADC driver (adc.cpp)\<close>

definition ASSERT_CHANNEL_ID :: "build \<Rightarrow> adc_device_ptr \<Rightarrow> u8 \<Rightarrow> world \<Rightarrow> world" where
  "ASSERT_CHANNEL_ID b device ch w =
     CORE_ASSERT b (0 \<le> uint ch \<and> unat ch < channel_count (adc (adc_devices w device)))
       ''invalid channel id'' w"

definition ASSERT_INITIALIZED :: "build \<Rightarrow> adc_device_ptr \<Rightarrow> string \<Rightarrow> world \<Rightarrow> world" where
  "ASSERT_INITIALIZED b device function_name w =
     CORE_ASSERT b (initialized (state (adc_devices w device)))
       (''ADC device not initialized (calling '' @ function_name @ '')'') w"

text \<open>The local \<^verbatim>\<open>init_device\<close> of \<^verbatim>\<open>adc_adc_init\<close>.\<close>

definition init_device :: "adc_device_t \<Rightarrow> stc_adc_init_t" where
  "init_device d =
     \<lparr>enResolution = resolution (init_params d),
      enDataAlign = data_alignment (init_params d),
      enAutoClear = AdcClren_Enable,
      enScanMode = scan_mode (init_params d),
      enRschsel = AdcRschsel_Restart\<rparr>"

definition adc_adc_init :: "adc_device_ptr \<Rightarrow> world \<Rightarrow> world" where
  "adc_adc_init device w =
     (let d = adc_devices w device
      in run [vendor (PWC_Fcg3PeriphClockCmd_call (clock_id (adc d)) Enable),
              vendor (ADC_Init_call (register_base (adc d)) (init_device d)),
              vendor (ADC_TriggerSrcCmd_call (register_base (adc d)) (sequence (adc d)) Disable)] w)"

text \<open>The local \<^verbatim>\<open>dma_device\<close> of \<^verbatim>\<open>adc_dma_init\<close>: the transfer from
  \<^verbatim>\<open>ADCx->DR0\<close> onwards to \<^verbatim>\<open>state.conversion_results\<close>.\<close>

definition dma_device :: "adc_device_t \<Rightarrow> stc_dma_config_t" where
  "dma_device d =
     \<lparr>u16BlockSize = of_nat (channel_count (adc d)),
      u16TransferCnt = 0,
      u32SrcAddr = DR0_of (register_base (adc d)),
      u32DesAddr = Mem_Addr (conversion_results (state d)),
      u16SrcRptSize = of_nat (channel_count (adc d)),
      u16DesRptSize = of_nat (channel_count (adc d)),
      stcDmaChCfg = \<lparr>enSrcInc = AddressIncrease,
                     enDesInc = AddressIncrease,
                     enSrcRptEn = Enable,
                     enDesRptEn = Enable,
                     enSrcNseqEn = Disable,
                     enDesNseqEn = Disable,
                     enTrnWidth = Dma16Bit,
                     enLlpEn = Disable,
                     enIntEn = Disable\<rparr>\<rparr>"

definition adc_dma_init :: "adc_device_ptr \<Rightarrow> world \<Rightarrow> world" where
  "adc_dma_init device w =
     (let d = adc_devices w device
      in run [vendor (PWC_Fcg0PeriphClockCmd_call (Fcg0_Periph (dma_clock_id (dma d))) Enable),
              vendor (DMA_InitChannel_call (dma_register_base (dma d)) (channel (dma d))
                        (dma_device d)),
              vendor (DMA_Cmd_call (dma_register_base (dma d)) Enable),
              vendor (DMA_ChannelCmd_call (dma_register_base (dma d)) (channel (dma d)) Enable),
              DMA_ClearIrqFlag (dma_register_base (dma d)) (channel (dma d)) TrnCpltIrq,
              DMA_ClearIrqFlag (dma_register_base (dma d)) (channel (dma d)) BlkTrnCpltIrq,
              vendor (PWC_Fcg0PeriphClockCmd_call PWC_FCG0_PERIPH_AOS Enable),
              vendor (DMA_SetTriggerSrc_call (dma_register_base (dma d)) (channel (dma d))
                        (event_source (dma d)))] w)"

text \<open>The assignment \<^verbatim>\<open>device->state.initialized = true\<close>.\<close>

definition set_initialized :: "adc_device_ptr \<Rightarrow> world \<Rightarrow> world" where
  "set_initialized device w =
     (let d = adc_devices w device
      in w\<lparr>adc_devices := (adc_devices w)(device := d\<lparr>state := (state d)\<lparr>initialized := True\<rparr>\<rparr>)\<rparr>)"

definition adc_device_init :: "adc_device_ptr \<Rightarrow> world \<Rightarrow> world" where
  "adc_device_init device w =
     (if initialized (state (adc_devices w device)) then w
      else run [adc_adc_init device, adc_dma_init device, set_initialized device] w)"

text \<open>\<^verbatim>\<open>1 << channel\<close> on a \<^verbatim>\<open>uint8_t\<close> promoted to \<^verbatim>\<open>int\<close>, returned as
  \<^verbatim>\<open>uint32_t\<close>: bit \<open>channel\<close> of a 32-bit word. C defines the shift for
  \<open>channel < 32\<close> only, which the assertion implies on a device of at most 32
  channels; beyond, the model takes the value of \<open>push_bit\<close>, which is 0.\<close>

definition adc_channel_to_mask :: "build \<Rightarrow> adc_device_ptr \<Rightarrow> u8 \<Rightarrow> world \<Rightarrow> u32 \<times> world" where
  "adc_channel_to_mask b device ch w =
     (push_bit (unat ch) (1 :: u32), ASSERT_CHANNEL_ID b device ch w)"

definition adc_enable_channel ::
  "build \<Rightarrow> adc_device_ptr \<Rightarrow> u8 \<Rightarrow> u8 \<Rightarrow> world \<Rightarrow> world" where
  "adc_enable_channel b device adc_channel sample_time w =
     (let w1 = ASSERT_INITIALIZED b device ''adc_enable_channel'' w;
          w2 = ASSERT_CHANNEL_ID b device adc_channel w1;
          w3 = CORE_ASSERT b (sample_time > 0) ''adc channel sample_time must be > 0'' w2;
          (mask, w4) = adc_channel_to_mask b device adc_channel w3;
          d = adc_devices w4 device;
          channel_config = \<lparr>u32Channel = mask,
                            u8Sequence = sequence (adc d),
                            pu8SampTime = sample_time\<rparr>
      in vendor (ADC_AddAdcChannel_call (register_base (adc d)) channel_config) w4)"

definition adc_disable_channel :: "build \<Rightarrow> adc_device_ptr \<Rightarrow> u8 \<Rightarrow> world \<Rightarrow> world" where
  "adc_disable_channel b device adc_channel w =
     (if \<not> initialized (state (adc_devices w device)) then w
      else
        let w1 = ASSERT_CHANNEL_ID b device adc_channel w;
            (mask, w2) = adc_channel_to_mask b device adc_channel w1
        in vendor (ADC_DelAdcChannel_call (register_base (adc (adc_devices w2 device))) mask) w2)"


definition adc_is_conversion_completed :: "build \<Rightarrow> adc_device_ptr \<Rightarrow> world \<Rightarrow> bool \<times> world" where
  "adc_is_conversion_completed b device w =
     (let w1 = ASSERT_INITIALIZED b device ''adc_is_conversion_completed'' w;
          d = adc_devices w1 device;
          (flag, w2) = DMA_GetIrqFlag (dma_register_base (dma d)) (channel (dma d)) BlkTrnCpltIrq w1
      in (flag = Set, w2))"

text \<open>The \<^verbatim>\<open>while\<close> loop of \<^verbatim>\<open>adc_await_conversion_completed\<close>. It has no bound: where
  the flag is never raised the loop does not end, and the value is \<open>None\<close>.\<close>

partial_function (option) adc_await_loop ::
  "build \<Rightarrow> (hardware \<Rightarrow> hardware) \<Rightarrow> adc_device_ptr \<Rightarrow> world \<Rightarrow> world option" where
  "adc_await_loop b env device w =
     (case adc_is_conversion_completed b device w of
        (completed, w1) \<Rightarrow>
          if \<not> completed then adc_await_loop b env device (yield env w1) else Some w1)"

definition adc_await_conversion_completed ::
  "build \<Rightarrow> (hardware \<Rightarrow> hardware) \<Rightarrow> adc_device_ptr \<Rightarrow> world \<Rightarrow> world option" where
  "adc_await_conversion_completed b env device w =
     adc_await_loop b env device
       (ASSERT_INITIALIZED b device ''adc_await_conversion_completed'' w)"

text \<open>\<^verbatim>\<open>conversion_results[adc_channel]\<close> is the 16-bit value \<open>adc_channel\<close> elements
  after the start of the buffer, two bytes each.\<close>

definition adc_conversion_read_result :: "build \<Rightarrow> adc_device_ptr \<Rightarrow> u8 \<Rightarrow> world \<Rightarrow> u16 \<times> world" where
  "adc_conversion_read_result b device adc_channel w =
     (let w1 = ASSERT_INITIALIZED b device ''adc_conversion_read_result'' w;
          w2 = ASSERT_CHANNEL_ID b device adc_channel w1;
          d = adc_devices w2 device;
          w3 = DMA_ClearIrqFlag (dma_register_base (dma d)) (channel (dma d)) BlkTrnCpltIrq w2
      in (memory (hw w3) (conversion_results (state (adc_devices w3 device)) + 2 * ucast adc_channel),
          w3))"

section \<open>The pin API (wiring_digital.cpp)\<close>

text \<open>What \<^verbatim>\<open>wiring_digital.cpp\<close> takes from headers that are not among the sources is
  gathered in one record, a parameter of every function below: the number of pins, the
  table \<^verbatim>\<open>PIN_MAP\<close> (of which the code reads \<^verbatim>\<open>adc_device\<close>, \<open>None\<close> for
  \<^verbatim>\<open>NULL\<close>, and \<^verbatim>\<open>adc_channel\<close>), the marker \<^verbatim>\<open>ADC_PIN_INVALID\<close>, the values of
  the mode and level constants, and the sample time that the declaration of
  \<^verbatim>\<open>adc_enable_channel\<close> supplies when \<^verbatim>\<open>pinMode\<close> calls it with two arguments.
  \<^verbatim>\<open>PIN_MAP\<close> is indexed below \<^verbatim>\<open>BOARD_NR_GPIO_PINS\<close> only.\<close>

record pin_info_t =
  adc_device :: "adc_device_ptr option"
  adc_channel :: u8

record board =
  BOARD_NR_GPIO_PINS :: nat
  PIN_MAP :: "gpio_pin_t \<Rightarrow> pin_info_t"
  ADC_PIN_INVALID :: u8
  default_sample_time :: u8
  INPUT :: u32
  INPUT_PULLUP :: u32
  INPUT_ANALOG :: u32
  OUTPUT :: u32
  INPUT_FLOATING :: u32
  HIGH :: u32
  LOW :: u32

text \<open>Modelled from the spec: \<^verbatim>\<open>ASSERT_GPIO_PIN_VALID\<close> and the pin-level
  \<^verbatim>\<open>GPIO_*\<close> functions come from \<^verbatim>\<open>drivers/gpio/gpio.h\<close>, not among the sources.
  The first is an assertion like the others, here on the bound that every caller tests
  right after it (the wording of its message is not known; the model's names the calling
  function). Of the second the model records the call and keeps what the code reads
  back: \<^verbatim>\<open>GPIO_GetConfig\<close> returns what \<^verbatim>\<open>GPIO_Init\<close> stored, \<^verbatim>\<open>GPIO_GetBit\<close> the
  input level of the pin; \<^verbatim>\<open>GPIO_SetFunc\<close>, \<^verbatim>\<open>GPIO_SetBits\<close> and
  \<^verbatim>\<open>GPIO_ResetBits\<close> set the function and the output latch.\<close>

definition ASSERT_GPIO_PIN_VALID :: "build \<Rightarrow> board \<Rightarrow> gpio_pin_t \<Rightarrow> string \<Rightarrow> world \<Rightarrow> world" where
  "ASSERT_GPIO_PIN_VALID b brd gpio_pin fn_name w =
     CORE_ASSERT b (gpio_pin < BOARD_NR_GPIO_PINS brd) (''invalid GPIO pin in '' @ fn_name) w"

definition GPIO_SetFunc ::
  "gpio_pin_t \<Rightarrow> en_port_func_t \<Rightarrow> en_functional_state_t \<Rightarrow> world \<Rightarrow> world" where
  "GPIO_SetFunc pin func en w =
     vendor (GPIO_SetFunc_call pin func en)
       (w\<lparr>hw := (hw w)\<lparr>port_func := (port_func (hw w))(pin := (func, en))\<rparr>\<rparr>)"

definition GPIO_Init :: "gpio_pin_t \<Rightarrow> stc_port_init_t \<Rightarrow> world \<Rightarrow> world" where
  "GPIO_Init pin conf w =
     vendor (GPIO_Init_call pin conf)
       (w\<lparr>hw := (hw w)\<lparr>port_config := (port_config (hw w))(pin := conf)\<rparr>\<rparr>)"

definition GPIO_GetConfig :: "gpio_pin_t \<Rightarrow> world \<Rightarrow> stc_port_init_t \<times> world" where
  "GPIO_GetConfig pin w = (port_config (hw w) pin, vendor (GPIO_GetConfig_call pin) w)"

definition GPIO_SetBits :: "gpio_pin_t \<Rightarrow> world \<Rightarrow> world" where
  "GPIO_SetBits pin w =
     vendor (GPIO_SetBits_call pin) (w\<lparr>hw := (hw w)\<lparr>port_out := (port_out (hw w))(pin := True)\<rparr>\<rparr>)"

definition GPIO_ResetBits :: "gpio_pin_t \<Rightarrow> world \<Rightarrow> world" where
  "GPIO_ResetBits pin w =
     vendor (GPIO_ResetBits_call pin) (w\<lparr>hw := (hw w)\<lparr>port_out := (port_out (hw w))(pin := False)\<rparr>\<rparr>)"

definition GPIO_GetBit :: "gpio_pin_t \<Rightarrow> world \<Rightarrow> bool \<times> world" where
  "GPIO_GetBit pin w = (port_in (hw w) pin, vendor (GPIO_GetBit_call pin) w)"

text \<open>\<^verbatim>\<open>MEM_ZERO_STRUCT(pinConf)\<close>: every field is zero, which for the two fields the code
  goes on to use is the first enumerator of the vendor's enumeration.\<close>

definition MEM_ZERO_STRUCT :: stc_port_init_t where
  "MEM_ZERO_STRUCT = \<lparr>enPinMode = Pin_Mode_In, enPullUp = Disable\<rparr>"

text \<open>The \<^verbatim>\<open>switch\<close> of \<^verbatim>\<open>pinMode\<close> that builds the pin configuration; \<open>None\<close> is
  the \<^verbatim>\<open>default\<close> label.\<close>

definition pinMode_conf :: "board \<Rightarrow> u32 \<Rightarrow> stc_port_init_t option" where
  "pinMode_conf brd dwMode =
     (let pinConf = MEM_ZERO_STRUCT in
      if dwMode = INPUT brd then Some (pinConf\<lparr>enPinMode := Pin_Mode_In\<rparr>)
      else if dwMode = INPUT_PULLUP brd then Some (pinConf\<lparr>enPinMode := Pin_Mode_In, enPullUp := Enable\<rparr>)
      else if dwMode = INPUT_ANALOG brd then Some (pinConf\<lparr>enPinMode := Pin_Mode_Ana\<rparr>)
      else if dwMode = OUTPUT brd then Some (pinConf\<lparr>enPinMode := Pin_Mode_Out\<rparr>)
      else None)"

text \<open>The part of \<^verbatim>\<open>pinMode\<close> that configures the ADC for a pin that has an ADC channel.\<close>

definition pinMode_adc :: "build \<Rightarrow> board \<Rightarrow> gpio_pin_t \<Rightarrow> u32 \<Rightarrow> world \<Rightarrow> world" where
  "pinMode_adc b brd dwPin dwMode w =
     (let ch = adc_channel (PIN_MAP brd dwPin) in
      case adc_device (PIN_MAP brd dwPin) of
        None \<Rightarrow> w
      | Some device \<Rightarrow>
          if ch \<noteq> ADC_PIN_INVALID brd then
            if dwMode = INPUT_ANALOG brd
            then run [adc_device_init device,
                      adc_enable_channel b device ch (default_sample_time brd)] w
            else adc_disable_channel b device ch w
          else w)"

definition pinMode :: "build \<Rightarrow> board \<Rightarrow> gpio_pin_t \<Rightarrow> u32 \<Rightarrow> world \<Rightarrow> world" where
  "pinMode b brd dwPin dwMode w =
     (let w1 = ASSERT_GPIO_PIN_VALID b brd dwPin ''pinMode'' w in
      if dwPin \<ge> BOARD_NR_GPIO_PINS brd then w1
      else
        let w2 = pinMode_adc b brd dwPin dwMode w1 in
        case pinMode_conf brd dwMode of
          None \<Rightarrow>
            CORE_ASSERT_FAIL b
              ''pinMode: invalid pin mode. Must be INPUT, INPUT_PULLUP, INPUT_ANALOG or OUTPUT'' w2
        | Some pinConf \<Rightarrow>
            run [GPIO_SetFunc dwPin Func_Gpio Enable, GPIO_Init dwPin pinConf] w2)"

definition getPinMode :: "build \<Rightarrow> board \<Rightarrow> gpio_pin_t \<Rightarrow> world \<Rightarrow> u32 \<times> world" where
  "getPinMode b brd dwPin w =
     (let w1 = ASSERT_GPIO_PIN_VALID b brd dwPin ''getPinMode'' w in
      if dwPin \<ge> BOARD_NR_GPIO_PINS brd then (INPUT_FLOATING brd, w1)
      else
        let (pinConf, w2) = GPIO_GetConfig dwPin w1 in
        case enPinMode pinConf of
          Pin_Mode_Out \<Rightarrow> (OUTPUT brd, w2)
        | Pin_Mode_In \<Rightarrow> (if enPullUp pinConf = Enable then INPUT_PULLUP brd else INPUT brd, w2)
        | Pin_Mode_Ana \<Rightarrow> (INPUT_ANALOG brd, w2)
        | Pin_Mode_Unknown _ \<Rightarrow>
            (INPUT_FLOATING brd,
             CORE_ASSERT_FAIL b ''getPinMode: invalid pin mode detected'' w2))"

definition digitalWrite :: "build \<Rightarrow> board \<Rightarrow> gpio_pin_t \<Rightarrow> u32 \<Rightarrow> world \<Rightarrow> world" where
  "digitalWrite b brd dwPin dwVal w =
     (let w1 = ASSERT_GPIO_PIN_VALID b brd dwPin ''digitalWrite'' w in
      if dwPin \<ge> BOARD_NR_GPIO_PINS brd then w1
      else if dwVal = HIGH brd then GPIO_SetBits dwPin w1
      else GPIO_ResetBits dwPin w1)"

definition digitalRead :: "build \<Rightarrow> board \<Rightarrow> gpio_pin_t \<Rightarrow> world \<Rightarrow> u32 \<times> world" where
  "digitalRead b brd ulPin w =
     (let w1 = ASSERT_GPIO_PIN_VALID b brd ulPin ''digitalRead'' w in
      if ulPin \<ge> BOARD_NR_GPIO_PINS brd then (LOW brd, w1)
      else
        let (level, w2) = GPIO_GetBit ulPin w1 in
        (if level then HIGH brd else LOW brd, w2))"

section \<open>Notions used to state the properties\<close>

text \<open>The block-transfer-complete flag of a device's DMA channel, and the call that polls it.\<close>

definition conversion_flag :: "adc_device_t \<Rightarrow> hardware \<Rightarrow> en_flag_status_t" where
  "conversion_flag d h = dma_irq_flag h (dma_register_base (dma d), channel (dma d), BlkTrnCpltIrq)"

definition poll_call :: "adc_device_t \<Rightarrow> vendor_call" where
  "poll_call d = DMA_GetIrqFlag_call (dma_register_base (dma d)) (channel (dma d)) BlkTrnCpltIrq"

text \<open>The result buffer of a device seen as an array of \<open>channel_count\<close> elements.\<close>

definition conversion_buffer :: "world \<Rightarrow> adc_device_ptr \<Rightarrow> u16 list" where
  "conversion_buffer w device =
     map (\<lambda>i. memory (hw w) (conversion_results (state (adc_devices w device)) + 2 * of_nat i))
       [0 ..< channel_count (adc (adc_devices w device))]"

text \<open>What the two assertion macros of the driver record: nothing in a release build and
  nothing where the condition holds.\<close>

definition channel_id_failure :: "build \<Rightarrow> adc_device_t \<Rightarrow> u8 \<Rightarrow> string list" where
  "channel_id_failure b d ch =
     (if b = Debug \<and> \<not> unat ch < channel_count (adc d) then [''invalid channel id''] else [])"

definition initialized_failure :: "build \<Rightarrow> adc_device_t \<Rightarrow> string \<Rightarrow> string list" where
  "initialized_failure b d function_name =
     (if b = Debug \<and> \<not> initialized (state d)
      then [''ADC device not initialized (calling '' @ function_name @ '')''] else [])"

section \<open>An example configuration\<close>

text \<open>A device with 17 channels, a board with four pins of which pin 2 is channel 3 of
  that device, and a world in which nothing has happened yet. The numbers are arbitrary;
  the examples below run the functions on them.\<close>

definition example_device :: adc_device_t where
  "example_device =
     \<lparr>adc = \<lparr>register_base = 0x40040000, clock_id = 1, sequence = 0, channel_count = 17\<rparr>,
      dma = \<lparr>dma_register_base = 0x40053000, dma_clock_id = 0x4000, channel = 0, event_source = 0\<rparr>,
      init_params = \<lparr>resolution = 0, data_alignment = 0, scan_mode = 0\<rparr>,
      state = \<lparr>initialized = False, conversion_results = 0x1FFF8000\<rparr>\<rparr>"

definition example_hardware :: hardware where
  "example_hardware =
     \<lparr>dma_irq_flag = (\<lambda>_. Reset),
      memory = (\<lambda>a. if a = 0x1FFF8006 then 0x0ABC else 0),
      port_config = (\<lambda>_. MEM_ZERO_STRUCT),
      port_func = (\<lambda>_. (Func_Other 0, Disable)),
      port_out = (\<lambda>_. False),
      port_in = (\<lambda>pin. pin = 1)\<rparr>"

definition example_world :: world where
  "example_world =
     \<lparr>hw = example_hardware, adc_devices = (\<lambda>_. example_device), calls = [], asserts = []\<rparr>"

text \<open>The same world with device 0 initialized.\<close>

definition example_ready :: world where
  "example_ready = set_initialized 0 example_world"

definition example_board :: board where
  "example_board =
     \<lparr>BOARD_NR_GPIO_PINS = 4,
      PIN_MAP = (\<lambda>pin. if pin = 2 then \<lparr>adc_device = Some 0, adc_channel = 3\<rparr>
                        else \<lparr>adc_device = None, adc_channel = 0xFF\<rparr>),
      ADC_PIN_INVALID = 0xFF,
      default_sample_time = 11,
      INPUT = 0, INPUT_PULLUP = 2, INPUT_ANALOG = 4, OUTPUT = 1, INPUT_FLOATING = 5,
      HIGH = 1, LOW = 0\<rparr>"

text \<open>A DMA engine that raises the transfer-complete flag of channel 0 at its first step
  and the block-transfer-complete flag at the next.\<close>

definition example_env :: "hardware \<Rightarrow> hardware" where
  "example_env h =
     (if dma_irq_flag h (0x40053000, 0, TrnCpltIrq) = Set
      then h\<lparr>dma_irq_flag := (dma_irq_flag h)((0x40053000, 0, BlkTrnCpltIrq) := Set)\<rparr>
      else h\<lparr>dma_irq_flag := (dma_irq_flag h)((0x40053000, 0, TrnCpltIrq) := Set)\<rparr>)"

section \<open>The functions as equations\<close>

lemmas example_defs = example_device_def example_hardware_def example_world_def
  example_ready_def example_board_def set_initialized_def

lemma CORE_ASSERT_eq:
  "CORE_ASSERT b expression message w =
     w\<lparr>asserts := asserts w @ (if b = Debug \<and> \<not> expression then [message] else [])\<rparr>"
  by (simp add: CORE_ASSERT_def)

lemma ASSERT_CHANNEL_ID_eq:
  "ASSERT_CHANNEL_ID b device ch w =
     w\<lparr>asserts := asserts w @ channel_id_failure b (adc_devices w device) ch\<rparr>"
  by (simp add: ASSERT_CHANNEL_ID_def CORE_ASSERT_def channel_id_failure_def)

lemma ASSERT_INITIALIZED_eq:
  "ASSERT_INITIALIZED b device function_name w =
     w\<lparr>asserts := asserts w @ initialized_failure b (adc_devices w device) function_name\<rparr>"
  by (simp add: ASSERT_INITIALIZED_def CORE_ASSERT_def initialized_failure_def)

lemmas assert_eqs = ASSERT_CHANNEL_ID_eq ASSERT_INITIALIZED_eq CORE_ASSERT_eq

text \<open>Each driver function that takes a \<^verbatim>\<open>const adc_device_t *\<close>, on any input: the
  vendor calls it adds and the assertion failures it records.\<close>

lemma adc_enable_channel_eq:
  "adc_enable_channel b device ch st w =
     w\<lparr>calls := calls w @ [ADC_AddAdcChannel_call (register_base (adc (adc_devices w device)))
          \<lparr>u32Channel = push_bit (unat ch) 1, u8Sequence = sequence (adc (adc_devices w device)),
           pu8SampTime = st\<rparr>],
       asserts := asserts w @ initialized_failure b (adc_devices w device) ''adc_enable_channel''
          @ channel_id_failure b (adc_devices w device) ch
          @ (if b = Debug \<and> \<not> st > 0 then [''adc channel sample_time must be > 0''] else [])
          @ channel_id_failure b (adc_devices w device) ch\<rparr>"
  by (simp add: adc_enable_channel_def adc_channel_to_mask_def assert_eqs vendor_def Let_def
      del: not_less)

lemma adc_disable_channel_eq:
  "adc_disable_channel b device ch w =
     (if initialized (state (adc_devices w device))
      then w\<lparr>calls := calls w @ [ADC_DelAdcChannel_call (register_base (adc (adc_devices w device)))
                                  (push_bit (unat ch) 1)],
             asserts := asserts w @ channel_id_failure b (adc_devices w device) ch
                @ channel_id_failure b (adc_devices w device) ch\<rparr>
      else w)"
  by (simp add: adc_disable_channel_def adc_channel_to_mask_def assert_eqs vendor_def Let_def)


lemma adc_is_conversion_completed_eq:
  "adc_is_conversion_completed b device w =
     (conversion_flag (adc_devices w device) (hw w) = Set,
      w\<lparr>calls := calls w @ [poll_call (adc_devices w device)],
        asserts := asserts w
          @ initialized_failure b (adc_devices w device) ''adc_is_conversion_completed''\<rparr>)"
  by (simp add: adc_is_conversion_completed_def assert_eqs vendor_def DMA_GetIrqFlag_def Let_def
      conversion_flag_def poll_call_def)

lemma adc_conversion_read_result_eq:
  "adc_conversion_read_result b device ch w =
     (memory (hw w) (conversion_results (state (adc_devices w device)) + 2 * ucast ch),
      w\<lparr>hw := (hw w)\<lparr>dma_irq_flag := (dma_irq_flag (hw w))
              ((dma_register_base (dma (adc_devices w device)),
                channel (dma (adc_devices w device)), BlkTrnCpltIrq) := Reset)\<rparr>,
        calls := calls w @ [DMA_ClearIrqFlag_call (dma_register_base (dma (adc_devices w device)))
                              (channel (dma (adc_devices w device))) BlkTrnCpltIrq],
        asserts := asserts w
          @ initialized_failure b (adc_devices w device) ''adc_conversion_read_result''
          @ channel_id_failure b (adc_devices w device) ch\<rparr>)"
  by (simp add: adc_conversion_read_result_def assert_eqs vendor_def DMA_ClearIrqFlag_def Let_def)

text \<open>The two halves of the initialization, and the initialization itself.\<close>

lemma adc_adc_init_eq:
  "adc_adc_init device w =
     w\<lparr>calls := calls w @
        [PWC_Fcg3PeriphClockCmd_call (clock_id (adc (adc_devices w device))) Enable,
         ADC_Init_call (register_base (adc (adc_devices w device)))
           (init_device (adc_devices w device)),
         ADC_TriggerSrcCmd_call (register_base (adc (adc_devices w device)))
           (sequence (adc (adc_devices w device))) Disable]\<rparr>"
  by (simp add: adc_adc_init_def vendor_def run_def Let_def)

lemma adc_dma_init_frame:
  "adc_devices (adc_dma_init device w) = adc_devices w"
  "asserts (adc_dma_init device w) = asserts w"
  "memory (hw (adc_dma_init device w)) = memory (hw w)"
  "port_config (hw (adc_dma_init device w)) = port_config (hw w)"
  "port_func (hw (adc_dma_init device w)) = port_func (hw w)"
  "port_out (hw (adc_dma_init device w)) = port_out (hw w)"
  "port_in (hw (adc_dma_init device w)) = port_in (hw w)"
  by (simp_all add: adc_dma_init_def vendor_def run_def DMA_ClearIrqFlag_def Let_def)

lemma adc_dma_init_calls:
  "calls (adc_dma_init device w) = calls w @
      [PWC_Fcg0PeriphClockCmd_call (Fcg0_Periph (dma_clock_id (dma (adc_devices w device)))) Enable,
       DMA_InitChannel_call (dma_register_base (dma (adc_devices w device)))
         (channel (dma (adc_devices w device))) (dma_device (adc_devices w device)),
       DMA_Cmd_call (dma_register_base (dma (adc_devices w device))) Enable,
       DMA_ChannelCmd_call (dma_register_base (dma (adc_devices w device)))
         (channel (dma (adc_devices w device))) Enable,
       DMA_ClearIrqFlag_call (dma_register_base (dma (adc_devices w device)))
         (channel (dma (adc_devices w device))) TrnCpltIrq,
       DMA_ClearIrqFlag_call (dma_register_base (dma (adc_devices w device)))
         (channel (dma (adc_devices w device))) BlkTrnCpltIrq,
       PWC_Fcg0PeriphClockCmd_call PWC_FCG0_PERIPH_AOS Enable,
       DMA_SetTriggerSrc_call (dma_register_base (dma (adc_devices w device)))
         (channel (dma (adc_devices w device))) (event_source (dma (adc_devices w device)))]"
  by (simp add: adc_dma_init_def vendor_def run_def DMA_ClearIrqFlag_def Let_def)


lemma adc_device_init_eq:
  "adc_device_init device w =
     (if initialized (state (adc_devices w device)) then w
      else set_initialized device (adc_dma_init device (adc_adc_init device w)))"
  by (simp add: adc_device_init_def run_def)

lemma set_initialized_frame:
  "hw (set_initialized device w) = hw w"
  "calls (set_initialized device w) = calls w"
  "asserts (set_initialized device w) = asserts w"
  "adc_devices (set_initialized device w) =
     (adc_devices w)(device := (adc_devices w device)
        \<lparr>state := (state (adc_devices w device))\<lparr>initialized := True\<rparr>\<rparr>)"
  by (simp_all add: set_initialized_def Let_def)


lemma adc_device_init_initialized:
  "initialized (state (adc_devices (adc_device_init device w) device))"
  by (simp add: adc_device_init_eq set_initialized_frame)





section \<open>Polling for completion\<close>

text \<open>
  C3. On an initialized device \<^verbatim>\<open>adc_is_conversion_completed\<close> returns true exactly when
  the block-transfer-complete flag (\<^verbatim>\<open>BlkTrnCpltIrq\<close>) of the device's DMA unit and
  channel is \<^verbatim>\<open>Set\<close>. It is a pure poll: the hardware and the device structs are as
  before, no assertion fails, and the one vendor call made is \<^verbatim>\<open>DMA_GetIrqFlag\<close>.
\<close>

theorem adc_is_conversion_completed_pure_poll:
  assumes "initialized (state (adc_devices w device))"
  shows "(fst (adc_is_conversion_completed b device w) \<longleftrightarrow>
            dma_irq_flag (hw w) (dma_register_base (dma (adc_devices w device)),
                                 channel (dma (adc_devices w device)), BlkTrnCpltIrq) = Set) \<and>
         hw (snd (adc_is_conversion_completed b device w)) = hw w \<and>
         adc_devices (snd (adc_is_conversion_completed b device w)) = adc_devices w \<and>
         asserts (snd (adc_is_conversion_completed b device w)) = asserts w \<and>
         calls (snd (adc_is_conversion_completed b device w)) =
           calls w @ [DMA_GetIrqFlag_call (dma_register_base (dma (adc_devices w device)))
                        (channel (dma (adc_devices w device))) BlkTrnCpltIrq]"
  using assms
  by (simp add: adc_is_conversion_completed_eq initialized_failure_def conversion_flag_def
      poll_call_def)

theorem adc_is_conversion_completed_pure_poll_witness:
  "initialized (state (adc_devices example_ready 0)) \<and>
   \<not> fst (adc_is_conversion_completed Debug 0 example_ready) \<and>
   hw (snd (adc_is_conversion_completed Debug 0 example_ready)) = hw example_ready \<and>
   asserts (snd (adc_is_conversion_completed Debug 0 example_ready)) = [] \<and>
   calls (snd (adc_is_conversion_completed Debug 0 example_ready)) =
     [DMA_GetIrqFlag_call 0x40053000 0 BlkTrnCpltIrq]"
proof -
  have init: "initialized (state (adc_devices example_ready 0))"
    by (simp add: example_defs)
  from adc_is_conversion_completed_pure_poll [OF init, of Debug] init show ?thesis
    by (simp add: example_defs)
qed

section \<open>Initialization\<close>

text \<open>
  C8. \<^verbatim>\<open>adc_device_init\<close> is idempotent. On a device whose \<^verbatim>\<open>state.initialized\<close> is
  already true it makes no vendor call and leaves the world as it is. On a device where the
  flag is false it runs the ADC initialization, then the DMA initialization (the vendor
  calls in this order), and sets the flag, changing nothing else of the device structs.
  In both cases the device is initialized afterwards and a second call changes nothing.
\<close>

theorem adc_device_init_idempotent:
  "(initialized (state (adc_devices w device)) \<longrightarrow> adc_device_init device w = w) \<and>
   (\<not> initialized (state (adc_devices w device)) \<longrightarrow>
      adc_device_init device w =
        set_initialized device (adc_dma_init device (adc_adc_init device w)) \<and>
      calls (adc_device_init device w) = calls w @
           [PWC_Fcg3PeriphClockCmd_call (clock_id (adc (adc_devices w device))) Enable,
            ADC_Init_call (register_base (adc (adc_devices w device)))
              (init_device (adc_devices w device)),
            ADC_TriggerSrcCmd_call (register_base (adc (adc_devices w device)))
              (sequence (adc (adc_devices w device))) Disable,
            PWC_Fcg0PeriphClockCmd_call
              (Fcg0_Periph (dma_clock_id (dma (adc_devices w device)))) Enable,
            DMA_InitChannel_call (dma_register_base (dma (adc_devices w device)))
              (channel (dma (adc_devices w device))) (dma_device (adc_devices w device)),
            DMA_Cmd_call (dma_register_base (dma (adc_devices w device))) Enable,
            DMA_ChannelCmd_call (dma_register_base (dma (adc_devices w device)))
              (channel (dma (adc_devices w device))) Enable,
            DMA_ClearIrqFlag_call (dma_register_base (dma (adc_devices w device)))
              (channel (dma (adc_devices w device))) TrnCpltIrq,
            DMA_ClearIrqFlag_call (dma_register_base (dma (adc_devices w device)))
              (channel (dma (adc_devices w device))) BlkTrnCpltIrq,
            PWC_Fcg0PeriphClockCmd_call PWC_FCG0_PERIPH_AOS Enable,
            DMA_SetTriggerSrc_call (dma_register_base (dma (adc_devices w device)))
              (channel (dma (adc_devices w device)))
              (event_source (dma (adc_devices w device)))] \<and>
      adc_devices (adc_device_init device w) =
        (adc_devices w)(device := (adc_devices w device)
           \<lparr>state := (state (adc_devices w device))\<lparr>initialized := True\<rparr>\<rparr>)) \<and>
   initialized (state (adc_devices (adc_device_init device w) device)) \<and>
   adc_device_init device (adc_device_init device w) = adc_device_init device w"
proof (intro conjI impI)
  assume "initialized (state (adc_devices w device))"
  then show "adc_device_init device w = w"
    by (simp add: adc_device_init_eq)
next
  assume "\<not> initialized (state (adc_devices w device))"
  then show "adc_device_init device w =
      set_initialized device (adc_dma_init device (adc_adc_init device w))"
    by (simp add: adc_device_init_eq)
next
  assume fresh: "\<not> initialized (state (adc_devices w device))"
  have same: "adc_devices (adc_adc_init device w) = adc_devices w"
    by (simp add: adc_adc_init_eq)
  show "calls (adc_device_init device w) = calls w @
           [PWC_Fcg3PeriphClockCmd_call (clock_id (adc (adc_devices w device))) Enable,
            ADC_Init_call (register_base (adc (adc_devices w device)))
              (init_device (adc_devices w device)),
            ADC_TriggerSrcCmd_call (register_base (adc (adc_devices w device)))
              (sequence (adc (adc_devices w device))) Disable,
            PWC_Fcg0PeriphClockCmd_call
              (Fcg0_Periph (dma_clock_id (dma (adc_devices w device)))) Enable,
            DMA_InitChannel_call (dma_register_base (dma (adc_devices w device)))
              (channel (dma (adc_devices w device))) (dma_device (adc_devices w device)),
            DMA_Cmd_call (dma_register_base (dma (adc_devices w device))) Enable,
            DMA_ChannelCmd_call (dma_register_base (dma (adc_devices w device)))
              (channel (dma (adc_devices w device))) Enable,
            DMA_ClearIrqFlag_call (dma_register_base (dma (adc_devices w device)))
              (channel (dma (adc_devices w device))) TrnCpltIrq,
            DMA_ClearIrqFlag_call (dma_register_base (dma (adc_devices w device)))
              (channel (dma (adc_devices w device))) BlkTrnCpltIrq,
            PWC_Fcg0PeriphClockCmd_call PWC_FCG0_PERIPH_AOS Enable,
            DMA_SetTriggerSrc_call (dma_register_base (dma (adc_devices w device)))
              (channel (dma (adc_devices w device)))
              (event_source (dma (adc_devices w device)))]"
    using fresh
    by (simp add: adc_device_init_eq set_initialized_frame adc_dma_init_calls same)
      (simp add: adc_adc_init_eq)
next
  assume "\<not> initialized (state (adc_devices w device))"
  then show "adc_devices (adc_device_init device w) =
        (adc_devices w)(device := (adc_devices w device)
           \<lparr>state := (state (adc_devices w device))\<lparr>initialized := True\<rparr>\<rparr>)"
    by (simp add: adc_device_init_eq set_initialized_frame adc_dma_init_frame adc_adc_init_eq)
next
  show "initialized (state (adc_devices (adc_device_init device w) device))"
    by (rule adc_device_init_initialized)
next
  show "adc_device_init device (adc_device_init device w) = adc_device_init device w"
    using adc_device_init_initialized [of device w]
    by (subst adc_device_init_eq) (simp only: if_True)
qed

theorem adc_device_init_idempotent_witness:
  "\<not> initialized (state (adc_devices example_world 0)) \<and>
   initialized (state (adc_devices (adc_device_init 0 example_world) 0)) \<and>
   length (calls (adc_device_init 0 example_world)) = 11 \<and>
   adc_device_init 0 (adc_device_init 0 example_world) = adc_device_init 0 example_world \<and>
   adc_device_init 0 example_ready = example_ready"
proof -
  have fresh: "\<not> initialized (state (adc_devices example_world 0))"
    and ready: "initialized (state (adc_devices example_ready 0))"
    and before: "calls example_world = []"
    by (simp_all add: example_defs)
  from adc_device_init_idempotent [of example_world 0]
    adc_device_init_idempotent [of example_ready 0]
  show ?thesis
    using fresh ready before by auto
qed

section \<open>Reading a result\<close>

lemma conversion_buffer_nth:
  "unat ch < channel_count (adc (adc_devices w device)) \<Longrightarrow>
     conversion_buffer w device ! unat ch =
       memory (hw w) (conversion_results (state (adc_devices w device)) + 2 * ucast ch)"
  by (simp add: conversion_buffer_def)

text \<open>
  C4. On an initialized device and for a channel id below \<^verbatim>\<open>channel_count\<close>,
  \<^verbatim>\<open>adc_conversion_read_result\<close> returns the 16-bit value at
  \<^verbatim>\<open>state.conversion_results[channel]\<close>. Before reading it clears the
  block-transfer-complete flag (the one vendor call it makes); the memory, and so the
  result buffer, is as before, and no assertion fails.
\<close>

theorem adc_conversion_read_result_reads_buffer:
  assumes "initialized (state (adc_devices w device))"
      and "unat ch < channel_count (adc (adc_devices w device))"
  shows "fst (adc_conversion_read_result b device ch w) = conversion_buffer w device ! unat ch \<and>
         fst (adc_conversion_read_result b device ch w) =
           memory (hw w) (conversion_results (state (adc_devices w device)) + 2 * ucast ch) \<and>
         conversion_flag (adc_devices w device) (hw (snd (adc_conversion_read_result b device ch w)))
           = Reset \<and>
         memory (hw (snd (adc_conversion_read_result b device ch w))) = memory (hw w) \<and>
         conversion_buffer (snd (adc_conversion_read_result b device ch w)) device =
           conversion_buffer w device \<and>
         adc_devices (snd (adc_conversion_read_result b device ch w)) = adc_devices w \<and>
         asserts (snd (adc_conversion_read_result b device ch w)) = asserts w \<and>
         calls (snd (adc_conversion_read_result b device ch w)) =
           calls w @ [DMA_ClearIrqFlag_call (dma_register_base (dma (adc_devices w device)))
                        (channel (dma (adc_devices w device))) BlkTrnCpltIrq]"
  using assms
  by (simp add: adc_conversion_read_result_eq conversion_buffer_nth initialized_failure_def
      channel_id_failure_def conversion_flag_def)
    (simp add: conversion_buffer_def)

theorem adc_conversion_read_result_reads_buffer_witness:
  "initialized (state (adc_devices example_ready 0)) \<and>
   unat (3 :: u8) < channel_count (adc (adc_devices example_ready 0)) \<and>
   fst (adc_conversion_read_result Debug 0 3 example_ready) = 0x0ABC \<and>
   conversion_buffer example_ready 0 ! unat (3 :: u8) = 0x0ABC \<and>
   asserts (snd (adc_conversion_read_result Debug 0 3 example_ready)) = [] \<and>
   calls (snd (adc_conversion_read_result Debug 0 3 example_ready)) =
     [DMA_ClearIrqFlag_call 0x40053000 0 BlkTrnCpltIrq]"
proof -
  have init: "initialized (state (adc_devices example_ready 0))"
    and ch: "unat (3 :: u8) < channel_count (adc (adc_devices example_ready 0))"
    and stored: "memory (hw example_ready)
        (conversion_results (state (adc_devices example_ready 0)) + 2 * ucast (3 :: u8)) = 0x0ABC"
    and before: "calls example_ready = []" "asserts example_ready = []"
    and unit: "dma_register_base (dma (adc_devices example_ready 0)) = 0x40053000"
      "channel (dma (adc_devices example_ready 0)) = 0"
    by (simp_all add: example_defs)
  from adc_conversion_read_result_reads_buffer [OF init ch, of Debug]
  show ?thesis
    using init ch stored before unit conversion_buffer_nth [OF ch] by simp
qed

section \<open>Enabling a channel\<close>

text \<open>
  C7. On an initialized device, for a channel id below \<^verbatim>\<open>channel_count\<close> (it is a
  \<^verbatim>\<open>uint8_t\<close>, so never negative) and a sample time above 0, no assertion of
  \<^verbatim>\<open>adc_enable_channel\<close> or of the \<^verbatim>\<open>adc_channel_to_mask\<close> it calls fails, and
  the function makes one vendor call: \<^verbatim>\<open>ADC_AddAdcChannel\<close> with the mask
  \<^verbatim>\<open>1 << adc_channel\<close>, the sequence of the device and the sample time given.
\<close>

theorem adc_enable_channel_adds_channel:
  assumes "initialized (state (adc_devices w device))"
      and "0 \<le> uint ch \<and> unat ch < channel_count (adc (adc_devices w device))"
      and "sample_time > 0"
  shows "asserts (adc_enable_channel b device ch sample_time w) = asserts w \<and>
         asserts (snd (adc_channel_to_mask b device ch w)) = asserts w \<and>
         fst (adc_channel_to_mask b device ch w) = push_bit (unat ch) 1 \<and>
         calls (adc_enable_channel b device ch sample_time w) =
           calls w @ [ADC_AddAdcChannel_call (register_base (adc (adc_devices w device)))
                        \<lparr>u32Channel = push_bit (unat ch) 1,
                         u8Sequence = sequence (adc (adc_devices w device)),
                         pu8SampTime = sample_time\<rparr>] \<and>
         hw (adc_enable_channel b device ch sample_time w) = hw w \<and>
         adc_devices (adc_enable_channel b device ch sample_time w) = adc_devices w"
  using assms
  by (simp add: adc_enable_channel_eq initialized_failure_def channel_id_failure_def
      adc_channel_to_mask_def ASSERT_CHANNEL_ID_eq)

theorem adc_enable_channel_adds_channel_witness:
  "initialized (state (adc_devices example_ready 0)) \<and>
   0 \<le> uint (3 :: u8) \<and> unat (3 :: u8) < channel_count (adc (adc_devices example_ready 0)) \<and>
   (11 :: u8) > 0 \<and>
   asserts (adc_enable_channel Debug 0 3 11 example_ready) = [] \<and>
   calls (adc_enable_channel Debug 0 3 11 example_ready) =
     [ADC_AddAdcChannel_call 0x40040000 \<lparr>u32Channel = 8, u8Sequence = 0, pu8SampTime = 11\<rparr>]"
proof -
  have init: "initialized (state (adc_devices example_ready 0))"
    and ch: "0 \<le> uint (3 :: u8) \<and> unat (3 :: u8) < channel_count (adc (adc_devices example_ready 0))"
    and st: "(11 :: u8) > 0"
    and before: "calls example_ready = []" "asserts example_ready = []"
    and dev: "register_base (adc (adc_devices example_ready 0)) = 0x40040000"
      "sequence (adc (adc_devices example_ready 0)) = 0"
    by (simp_all add: example_defs)
  from adc_enable_channel_adds_channel [OF init ch st, of Debug]
  show ?thesis
    using init ch before dev by simp
qed

section \<open>Waiting for completion\<close>

text \<open>The loop on an initialized device, by the number of polls that find the flag unset:
  each of them is followed by one \<^verbatim>\<open>yield()\<close>.\<close>

lemma await_loop_returns:
  assumes "initialized (state (adc_devices w device))"
      and "\<forall>k<n. conversion_flag (adc_devices w device) ((env ^^ k) (hw w)) \<noteq> Set"
      and "conversion_flag (adc_devices w device) ((env ^^ n) (hw w)) = Set"
  shows "adc_await_loop b env device w =
     Some (w\<lparr>hw := (env ^^ n) (hw w),
             calls := calls w @ concat (replicate n [poll_call (adc_devices w device), yield_call])
                        @ [poll_call (adc_devices w device)]\<rparr>)"
  using assms
proof (induction n arbitrary: w)
  case 0
  then show ?case
    by (subst adc_await_loop.simps) (simp add: adc_is_conversion_completed_eq initialized_failure_def)
next
  case (Suc n)
  let ?d = "adc_devices w device"
  let ?w1 = "yield env (w\<lparr>calls := calls w @ [poll_call ?d]\<rparr>)"
  from Suc.prems(2) have unset: "conversion_flag ?d (hw w) \<noteq> Set"
    by (metis funpow_0 zero_less_Suc)
  have dev: "adc_devices ?w1 device = ?d" and hw1: "hw ?w1 = env (hw w)"
    and calls1: "calls ?w1 = calls w @ [poll_call ?d, yield_call]"
    by (simp_all add: yield_def vendor_def)
  have step: "adc_await_loop b env device w = adc_await_loop b env device ?w1"
    using unset Suc.prems(1)
    by (subst adc_await_loop.simps) (simp add: adc_is_conversion_completed_eq initialized_failure_def)
  have a: "initialized (state (adc_devices ?w1 device))"
    using Suc.prems(1) dev by simp
  have b: "\<forall>k<n. conversion_flag (adc_devices ?w1 device) ((env ^^ k) (hw ?w1)) \<noteq> Set"
    using Suc.prems(2) by (simp only: dev hw1) (metis Suc_less_eq funpow_swap1 funpow.simps(2) comp_apply)
  have c: "conversion_flag (adc_devices ?w1 device) ((env ^^ n) (hw ?w1)) = Set"
    using Suc.prems(3) by (simp only: dev hw1) (simp add: funpow_swap1)
  show ?case
    unfolding step Suc.IH [OF a b c]
    by (simp add: yield_def vendor_def funpow_swap1)
qed

text \<open>If the loop returns at all, the flag is raised at some step of the environment.\<close>

lemma await_loop_only_returns:
  assumes "adc_await_loop b env device w = Some w'"
  shows "initialized (state (adc_devices w device)) \<longrightarrow>
     (\<exists>n. conversion_flag (adc_devices w device) ((env ^^ n) (hw w)) = Set)"
proof (rule adc_await_loop.raw_induct
    [where P = "\<lambda>b env device w y. initialized (state (adc_devices w device)) \<longrightarrow>
        (\<exists>n. conversion_flag (adc_devices w device) ((env ^^ n) (hw w)) = Set)", OF _ assms])
  fix f :: "build \<Rightarrow> (hardware \<Rightarrow> hardware) \<Rightarrow> adc_device_ptr \<Rightarrow> world \<Rightarrow> world option"
    and b env device w y
  assume IH: "\<And>b env device w y. f b env device w = Some y \<Longrightarrow>
      initialized (state (adc_devices w device)) \<longrightarrow>
        (\<exists>n. conversion_flag (adc_devices w device) ((env ^^ n) (hw w)) = Set)"
    and body: "(case adc_is_conversion_completed b device w of
        (completed, w1) \<Rightarrow> if \<not> completed then f b env device (yield env w1) else Some w1) = Some y"
  let ?d = "adc_devices w device"
  let ?w1 = "yield env (w\<lparr>calls := calls w @ [poll_call ?d]\<rparr>)"
  show "initialized (state (adc_devices w device)) \<longrightarrow>
        (\<exists>n. conversion_flag (adc_devices w device) ((env ^^ n) (hw w)) = Set)"
  proof
    assume init: "initialized (state ?d)"
    show "\<exists>n. conversion_flag ?d ((env ^^ n) (hw w)) = Set"
    proof (cases "conversion_flag ?d (hw w) = Set")
      case True
      then have "conversion_flag ?d ((env ^^ 0) (hw w)) = Set" by simp
      then show ?thesis by blast
    next
      case False
      with body init have "f b env device ?w1 = Some y"
        by (simp add: adc_is_conversion_completed_eq initialized_failure_def)
      from IH [OF this] init obtain n where "conversion_flag ?d ((env ^^ n) (env (hw w))) = Set"
        by (auto simp: yield_def vendor_def)
      then have "conversion_flag ?d ((env ^^ Suc n) (hw w)) = Set"
        by (simp add: funpow_swap1)
      then show ?thesis by blast
    qed
  qed
qed

lemma await_iff:
  assumes init: "initialized (state (adc_devices w device))"
  shows "adc_await_conversion_completed b env device w = Some w' \<longleftrightarrow>
     (\<exists>n. (\<forall>k<n. conversion_flag (adc_devices w device) ((env ^^ k) (hw w)) \<noteq> Set) \<and>
          conversion_flag (adc_devices w device) ((env ^^ n) (hw w)) = Set \<and>
          w' = w\<lparr>hw := (env ^^ n) (hw w),
                 calls := calls w @ concat (replicate n [poll_call (adc_devices w device), yield_call])
                            @ [poll_call (adc_devices w device)]\<rparr>)"
    (is "?lhs \<longleftrightarrow> ?rhs")
proof -
  let ?d = "adc_devices w device"
  let ?set = "\<lambda>n. conversion_flag ?d ((env ^^ n) (hw w)) = Set"
  have entry: "adc_await_conversion_completed b env device w = adc_await_loop b env device w"
    using init by (simp add: adc_await_conversion_completed_def ASSERT_INITIALIZED_eq
        initialized_failure_def)
  show ?thesis
  proof
    assume ?lhs
    then have loop: "adc_await_loop b env device w = Some w'"
      by (simp add: entry)
    from await_loop_only_returns [OF loop] init obtain m where "?set m"
      by blast
    define n where "n = (LEAST m. ?set m)"
    have set_n: "?set n"
      unfolding n_def using \<open>?set m\<close> by (rule LeastI)
    have unset: "\<forall>k<n. \<not> ?set k"
      unfolding n_def using not_less_Least by blast
    from await_loop_returns [OF init unset set_n, of b] loop show ?rhs
      using set_n unset by auto
  next
    assume ?rhs
    then obtain n where "\<forall>k<n. \<not> ?set k" "?set n"
      and w': "w' = w\<lparr>hw := (env ^^ n) (hw w),
                 calls := calls w @ concat (replicate n [poll_call ?d, yield_call]) @ [poll_call ?d]\<rparr>"
      by blast
    from await_loop_returns [OF init this(1,2), of b] show ?lhs
      by (simp add: entry w')
  qed
qed

text \<open>There is no timeout: where the flag is never raised, the function does not return.\<close>

lemma await_diverges:
  assumes "initialized (state (adc_devices w device))"
    and "\<forall>n. conversion_flag (adc_devices w device) ((env ^^ n) (hw w)) \<noteq> Set"
  shows "adc_await_conversion_completed b env device w = None"
  using await_iff [OF assms(1), of b env] assms(2)
  by (metis not_Some_eq)

text \<open>
  C2. On an initialized device \<^verbatim>\<open>adc_await_conversion_completed\<close> returns only with the
  block-transfer-complete flag of the device's DMA channel set. It returns exactly when the
  flag is raised at some step \<open>n\<close> of the environment, and then it has polled \<open>n\<close>
  times with the flag unset, each time calling \<^verbatim>\<open>yield()\<close> once before polling again,
  and once more with the flag set; nothing else has happened.
\<close>

theorem adc_await_conversion_completed_returns_when_set:
  assumes "initialized (state (adc_devices w device))"
  shows "(adc_await_conversion_completed b env device w = Some w' \<longleftrightarrow>
            (\<exists>n. (\<forall>k<n. conversion_flag (adc_devices w device) ((env ^^ k) (hw w)) \<noteq> Set) \<and>
                 conversion_flag (adc_devices w device) ((env ^^ n) (hw w)) = Set \<and>
                 w' = w\<lparr>hw := (env ^^ n) (hw w),
                        calls := calls w
                          @ concat (replicate n [poll_call (adc_devices w device), yield_call])
                          @ [poll_call (adc_devices w device)]\<rparr>)) \<and>
         (adc_await_conversion_completed b env device w = Some w' \<longrightarrow>
            dma_irq_flag (hw w') (dma_register_base (dma (adc_devices w' device)),
                                  channel (dma (adc_devices w' device)), BlkTrnCpltIrq) = Set)"
proof
  show iff: "adc_await_conversion_completed b env device w = Some w' \<longleftrightarrow>
            (\<exists>n. (\<forall>k<n. conversion_flag (adc_devices w device) ((env ^^ k) (hw w)) \<noteq> Set) \<and>
                 conversion_flag (adc_devices w device) ((env ^^ n) (hw w)) = Set \<and>
                 w' = w\<lparr>hw := (env ^^ n) (hw w),
                        calls := calls w
                          @ concat (replicate n [poll_call (adc_devices w device), yield_call])
                          @ [poll_call (adc_devices w device)]\<rparr>)"
    by (rule await_iff [OF assms])
  show "adc_await_conversion_completed b env device w = Some w' \<longrightarrow>
            dma_irq_flag (hw w') (dma_register_base (dma (adc_devices w' device)),
                                  channel (dma (adc_devices w' device)), BlkTrnCpltIrq) = Set"
  proof
    assume "adc_await_conversion_completed b env device w = Some w'"
    with iff obtain n where "conversion_flag (adc_devices w device) ((env ^^ n) (hw w)) = Set"
      and "w' = w\<lparr>hw := (env ^^ n) (hw w),
                  calls := calls w
                    @ concat (replicate n [poll_call (adc_devices w device), yield_call])
                    @ [poll_call (adc_devices w device)]\<rparr>"
      by blast
    then show "dma_irq_flag (hw w') (dma_register_base (dma (adc_devices w' device)),
                                  channel (dma (adc_devices w' device)), BlkTrnCpltIrq) = Set"
      by (simp add: conversion_flag_def)
  qed
qed

theorem adc_await_conversion_completed_returns_when_set_witness:
  "initialized (state (adc_devices example_ready 0)) \<and>
   adc_await_conversion_completed Debug example_env 0 example_ready =
     Some (example_ready
       \<lparr>hw := (example_env ^^ 2) (hw example_ready),
        calls := [DMA_GetIrqFlag_call 0x40053000 0 BlkTrnCpltIrq, yield_call,
                  DMA_GetIrqFlag_call 0x40053000 0 BlkTrnCpltIrq, yield_call,
                  DMA_GetIrqFlag_call 0x40053000 0 BlkTrnCpltIrq]\<rparr>) \<and>
   dma_irq_flag ((example_env ^^ 2) (hw example_ready)) (0x40053000, 0, BlkTrnCpltIrq) = Set"
proof -
  have init: "initialized (state (adc_devices example_ready 0))"
    by (simp add: example_defs)
  have flags: "conversion_flag (adc_devices example_ready 0) (hw example_ready) \<noteq> Set"
    "conversion_flag (adc_devices example_ready 0) (example_env (hw example_ready)) \<noteq> Set"
    "conversion_flag (adc_devices example_ready 0) (example_env (example_env (hw example_ready))) = Set"
    by (simp_all add: example_defs example_env_def conversion_flag_def)
  have poll: "poll_call (adc_devices example_ready 0) = DMA_GetIrqFlag_call 0x40053000 0 BlkTrnCpltIrq"
    and before: "calls example_ready = []"
    by (simp_all add: example_defs poll_call_def)
  let ?w' = "example_ready
       \<lparr>hw := (example_env ^^ 2) (hw example_ready),
        calls := [DMA_GetIrqFlag_call 0x40053000 0 BlkTrnCpltIrq, yield_call,
                  DMA_GetIrqFlag_call 0x40053000 0 BlkTrnCpltIrq, yield_call,
                  DMA_GetIrqFlag_call 0x40053000 0 BlkTrnCpltIrq]\<rparr>"
  have "\<exists>n. (\<forall>k<n. conversion_flag (adc_devices example_ready 0) ((example_env ^^ k) (hw example_ready)) \<noteq> Set) \<and>
            conversion_flag (adc_devices example_ready 0) ((example_env ^^ n) (hw example_ready)) = Set \<and>
            ?w' = example_ready\<lparr>hw := (example_env ^^ n) (hw example_ready),
                        calls := calls example_ready
                          @ concat (replicate n [poll_call (adc_devices example_ready 0), yield_call])
                          @ [poll_call (adc_devices example_ready 0)]\<rparr>"
    using flags poll before
    by (intro exI [of _ 2]) (simp add: numeral_2_eq_2 less_Suc_eq)
  with adc_await_conversion_completed_returns_when_set [OF init, of Debug example_env ?w']
  have "adc_await_conversion_completed Debug example_env 0 example_ready = Some ?w'"
    by blast
  then show ?thesis
    using init flags(3) by (simp add: numeral_2_eq_2 conversion_flag_def example_defs)
qed

section \<open>The pin API as equations\<close>

lemma ASSERT_GPIO_PIN_VALID_eq:
  "ASSERT_GPIO_PIN_VALID b brd pin fn_name w =
     w\<lparr>asserts := asserts w @ (if b = Debug \<and> \<not> pin < BOARD_NR_GPIO_PINS brd
                                 then [''invalid GPIO pin in '' @ fn_name] else [])\<rparr>"
  by (simp add: ASSERT_GPIO_PIN_VALID_def CORE_ASSERT_def)


lemma pinMode_conf_None:
  "m \<notin> {INPUT brd, INPUT_PULLUP brd, INPUT_ANALOG brd, OUTPUT brd} \<Longrightarrow> pinMode_conf brd m = None"
  by (simp add: pinMode_conf_def)

lemma pinMode_invalid_mode:
  assumes "pin < BOARD_NR_GPIO_PINS brd"
      and "m \<notin> {INPUT brd, INPUT_PULLUP brd, INPUT_ANALOG brd, OUTPUT brd}"
  shows "pinMode b brd pin m w =
     (pinMode_adc b brd pin m w)
       \<lparr>asserts := asserts (pinMode_adc b brd pin m w) @ (if b = Debug
          then [''pinMode: invalid pin mode. Must be INPUT, INPUT_PULLUP, INPUT_ANALOG or OUTPUT'']
          else [])\<rparr>"
  using assms(1) pinMode_conf_None [OF assms(2)]
  by (simp add: pinMode_def ASSERT_GPIO_PIN_VALID_eq CORE_ASSERT_eq CORE_ASSERT_FAIL_def Let_def)

lemma pinMode_valid_mode:
  assumes "pin < BOARD_NR_GPIO_PINS brd"
      and "pinMode_conf brd m = Some conf"
  shows "pinMode b brd pin m w =
     run [GPIO_SetFunc pin Func_Gpio Enable, GPIO_Init pin conf] (pinMode_adc b brd pin m w)"
  using assms
  by (simp add: pinMode_def ASSERT_GPIO_PIN_VALID_eq Let_def)

lemma configure_eq:
  "run [GPIO_SetFunc pin Func_Gpio Enable, GPIO_Init pin conf] w =
     w\<lparr>hw := (hw w)\<lparr>port_func := (port_func (hw w))(pin := (Func_Gpio, Enable)),
                     port_config := (port_config (hw w))(pin := conf)\<rparr>,
       calls := calls w @ [GPIO_SetFunc_call pin Func_Gpio Enable, GPIO_Init_call pin conf]\<rparr>"
  by (simp add: run_def vendor_def GPIO_SetFunc_def GPIO_Init_def)

lemma pinMode_adc_eq:
  assumes "adc_device (PIN_MAP brd pin) = Some device"
      and "adc_channel (PIN_MAP brd pin) \<noteq> ADC_PIN_INVALID brd"
  shows "pinMode_adc b brd pin m w =
     (if m = INPUT_ANALOG brd
      then run [adc_device_init device,
                adc_enable_channel b device (adc_channel (PIN_MAP brd pin))
                  (default_sample_time brd)] w
      else adc_disable_channel b device (adc_channel (PIN_MAP brd pin)) w)"
  using assms by (simp add: pinMode_adc_def Let_def)




section \<open>Configuring a pin\<close>



section \<open>An invalid mode\<close>

text \<open>
  C9. For a pin below \<^verbatim>\<open>BOARD_NR_GPIO_PINS\<close> to which \<^verbatim>\<open>PIN_MAP\<close> gives an ADC
  device and a channel other than \<^verbatim>\<open>ADC_PIN_INVALID\<close>, \<^verbatim>\<open>pinMode\<close> with a mode that
  is none of \<^verbatim>\<open>INPUT\<close>, \<^verbatim>\<open>INPUT_PULLUP\<close>, \<^verbatim>\<open>INPUT_ANALOG\<close>, \<^verbatim>\<open>OUTPUT\<close>
  leaves the hardware as it is, the function and the configuration of the pin included: it
  makes neither the \<^verbatim>\<open>GPIO_SetFunc\<close> nor the \<^verbatim>\<open>GPIO_Init\<close> call. The one vendor call it
  does make, where the device is initialized, is the \<^verbatim>\<open>ADC_DelAdcChannel\<close> that disables
  the channel of the pin; where the device is not initialized it makes none. A release
  build records no assertion; the last one a debug build records is that of the invalid
  mode.
\<close>

theorem pinMode_invalid_mode_disables_channel:
  assumes "pin < BOARD_NR_GPIO_PINS brd"
      and "adc_device (PIN_MAP brd pin) = Some device"
      and "adc_channel (PIN_MAP brd pin) \<noteq> ADC_PIN_INVALID brd"
      and "m \<notin> {INPUT brd, INPUT_PULLUP brd, INPUT_ANALOG brd, OUTPUT brd}"
  shows "hw (pinMode b brd pin m w) = hw w \<and>
         port_func (hw (pinMode b brd pin m w)) pin = port_func (hw w) pin \<and>
         port_config (hw (pinMode b brd pin m w)) pin = port_config (hw w) pin \<and>
         adc_devices (pinMode b brd pin m w) = adc_devices w \<and>
         calls (pinMode b brd pin m w) =
           calls w @ (if initialized (state (adc_devices w device))
                      then [ADC_DelAdcChannel_call (register_base (adc (adc_devices w device)))
                              (push_bit (unat (adc_channel (PIN_MAP brd pin))) 1)]
                      else []) \<and>
         asserts (pinMode Release brd pin m w) = asserts w \<and>
         (\<exists>failures. asserts (pinMode Debug brd pin m w) = asserts w @ failures @
            [''pinMode: invalid pin mode. Must be INPUT, INPUT_PULLUP, INPUT_ANALOG or OUTPUT''])"
proof -
  from assms(4) have "m \<noteq> INPUT_ANALOG brd"
    by auto
  then have adc: "pinMode_adc b brd pin m w =
      adc_disable_channel b device (adc_channel (PIN_MAP brd pin)) w" for b
    by (simp add: pinMode_adc_eq [OF assms(2,3)])
  show ?thesis
    by (simp add: pinMode_invalid_mode [OF assms(1,4)] adc adc_disable_channel_eq
        channel_id_failure_def)
qed

theorem pinMode_invalid_mode_disables_channel_witness:
  "2 < BOARD_NR_GPIO_PINS example_board \<and>
   adc_device (PIN_MAP example_board 2) = Some 0 \<and>
   adc_channel (PIN_MAP example_board 2) \<noteq> ADC_PIN_INVALID example_board \<and>
   77 \<notin> {INPUT example_board, INPUT_PULLUP example_board, INPUT_ANALOG example_board,
          OUTPUT example_board} \<and>
   hw (pinMode Release example_board 2 77 example_ready) = hw example_ready \<and>
   calls (pinMode Release example_board 2 77 example_ready) =
     [ADC_DelAdcChannel_call 0x40040000 8] \<and>
   calls (pinMode Release example_board 2 77 example_world) = []"
proof -
  have pin: "2 < BOARD_NR_GPIO_PINS example_board"
    and mapped: "adc_device (PIN_MAP example_board 2) = Some 0"
      "adc_channel (PIN_MAP example_board 2) \<noteq> ADC_PIN_INVALID example_board"
    and mode: "77 \<notin> {INPUT example_board, INPUT_PULLUP example_board,
                      INPUT_ANALOG example_board, OUTPUT example_board}"
    and ch: "adc_channel (PIN_MAP example_board 2) = 3"
    and ready: "initialized (state (adc_devices example_ready 0))"
      "register_base (adc (adc_devices example_ready 0)) = 0x40040000"
      "calls example_ready = []"
    and fresh: "\<not> initialized (state (adc_devices example_world 0))"
      "calls example_world = []"
    by (simp_all add: example_defs)
  from pinMode_invalid_mode_disables_channel [OF pin mapped mode, of Release example_ready]
    pinMode_invalid_mode_disables_channel [OF pin mapped mode, of Release example_world]
  show ?thesis
    using pin mapped mode ch ready fresh by simp
qed

section \<open>Reading the mode back\<close>

lemma getPinMode_eq:
  assumes "pin < BOARD_NR_GPIO_PINS brd"
  shows "fst (getPinMode b brd pin w) =
     (case enPinMode (port_config (hw w) pin) of
        Pin_Mode_Out \<Rightarrow> OUTPUT brd
      | Pin_Mode_In \<Rightarrow>
          if enPullUp (port_config (hw w) pin) = Enable then INPUT_PULLUP brd else INPUT brd
      | Pin_Mode_Ana \<Rightarrow> INPUT_ANALOG brd
      | Pin_Mode_Unknown _ \<Rightarrow> INPUT_FLOATING brd)"
  using assms
  by (simp add: getPinMode_def ASSERT_GPIO_PIN_VALID_eq GPIO_GetConfig_def Let_def
      split: en_pin_mode_t.split)

lemma pinMode_conf_Some:
  assumes "m \<in> {INPUT brd, INPUT_PULLUP brd, INPUT_ANALOG brd, OUTPUT brd}"
  shows "pinMode_conf brd m \<noteq> None"
  using assms by (auto simp add: pinMode_conf_def Let_def)

lemma pinMode_conf_read_back:
  assumes "pinMode_conf brd m = Some conf"
  shows "(case enPinMode conf of
        Pin_Mode_Out \<Rightarrow> OUTPUT brd
      | Pin_Mode_In \<Rightarrow> if enPullUp conf = Enable then INPUT_PULLUP brd else INPUT brd
      | Pin_Mode_Ana \<Rightarrow> INPUT_ANALOG brd
      | Pin_Mode_Unknown _ \<Rightarrow> INPUT_FLOATING brd) = m"
  using assms by (auto simp add: pinMode_conf_def MEM_ZERO_STRUCT_def Let_def split: if_splits)

text \<open>
  C10. With \<^verbatim>\<open>GPIO_GetConfig\<close> reading back what \<^verbatim>\<open>GPIO_Init\<close> wrote, as in this
  model: for a pin below \<^verbatim>\<open>BOARD_NR_GPIO_PINS\<close> and a mode \<open>m\<close> among \<^verbatim>\<open>INPUT\<close>,
  \<^verbatim>\<open>INPUT_PULLUP\<close>, \<^verbatim>\<open>INPUT_ANALOG\<close>, \<^verbatim>\<open>OUTPUT\<close>, \<^verbatim>\<open>getPinMode\<close> right after
  \<^verbatim>\<open>pinMode\<close> with \<open>m\<close> returns \<open>m\<close>. For a pin that is not below
  \<^verbatim>\<open>BOARD_NR_GPIO_PINS\<close>, \<^verbatim>\<open>getPinMode\<close> returns \<^verbatim>\<open>INPUT_FLOATING\<close>, with no
  vendor call made; a debug build records the invalid pin, a release build changes nothing.
\<close>

theorem getPinMode_after_pinMode:
  "(pin < BOARD_NR_GPIO_PINS brd \<and>
    m \<in> {INPUT brd, INPUT_PULLUP brd, INPUT_ANALOG brd, OUTPUT brd} \<longrightarrow>
      fst (getPinMode b brd pin (pinMode b brd pin m w)) = m) \<and>
   (pin \<ge> BOARD_NR_GPIO_PINS brd \<longrightarrow>
      fst (getPinMode b brd pin w) = INPUT_FLOATING brd \<and>
      hw (snd (getPinMode b brd pin w)) = hw w \<and>
      calls (snd (getPinMode b brd pin w)) = calls w \<and>
      asserts (snd (getPinMode b brd pin w)) =
        asserts w @ (if b = Debug then [''invalid GPIO pin in getPinMode''] else []) \<and>
      getPinMode Release brd pin w = (INPUT_FLOATING brd, w))"
proof (intro conjI impI)
  assume a: "pin < BOARD_NR_GPIO_PINS brd \<and>
    m \<in> {INPUT brd, INPUT_PULLUP brd, INPUT_ANALOG brd, OUTPUT brd}"
  then have pin: "pin < BOARD_NR_GPIO_PINS brd"
    and mode: "m \<in> {INPUT brd, INPUT_PULLUP brd, INPUT_ANALOG brd, OUTPUT brd}"
    by simp_all
  from pinMode_conf_Some [OF mode] obtain conf
    where conf: "pinMode_conf brd m = Some conf"
    by blast
  note decoded = pinMode_conf_read_back [OF conf]
  have stored: "port_config (hw (pinMode b brd pin m w)) pin = conf"
    by (simp add: pinMode_valid_mode [OF pin conf] configure_eq)
  show "fst (getPinMode b brd pin (pinMode b brd pin m w)) = m"
    unfolding getPinMode_eq [OF pin] stored by (rule decoded)
next
  assume "BOARD_NR_GPIO_PINS brd \<le> pin"
  then show "fst (getPinMode b brd pin w) = INPUT_FLOATING brd"
    "hw (snd (getPinMode b brd pin w)) = hw w"
    "calls (snd (getPinMode b brd pin w)) = calls w"
    "asserts (snd (getPinMode b brd pin w)) =
        asserts w @ (if b = Debug then [''invalid GPIO pin in getPinMode''] else [])"
    "getPinMode Release brd pin w = (INPUT_FLOATING brd, w)"
    by (simp_all add: getPinMode_def ASSERT_GPIO_PIN_VALID_eq Let_def)
qed

theorem getPinMode_after_pinMode_witness:
  "1 < BOARD_NR_GPIO_PINS example_board \<and>
   fst (getPinMode Debug example_board 1
          (pinMode Debug example_board 1 (INPUT_PULLUP example_board) example_world))
     = INPUT_PULLUP example_board \<and>
   BOARD_NR_GPIO_PINS example_board \<le> 9 \<and>
   fst (getPinMode Release example_board 9 example_world) = 5"
proof -
  have pin: "1 < BOARD_NR_GPIO_PINS example_board \<and>
     INPUT_PULLUP example_board \<in> {INPUT example_board, INPUT_PULLUP example_board,
        INPUT_ANALOG example_board, OUTPUT example_board}"
    and beyond: "BOARD_NR_GPIO_PINS example_board \<le> 9"
    and floating: "INPUT_FLOATING example_board = 5"
    by (simp_all add: example_defs)
  from getPinMode_after_pinMode [of 1 example_board "INPUT_PULLUP example_board" Debug example_world]
    getPinMode_after_pinMode [of 9 example_board 0 Release example_world]
  show ?thesis
    using pin beyond floating by simp
qed

section \<open>Reading and writing a pin\<close>

text \<open>
  C6. \<^verbatim>\<open>digitalRead\<close> of a pin below \<^verbatim>\<open>BOARD_NR_GPIO_PINS\<close> returns \<^verbatim>\<open>HIGH\<close> if the
  input bit of the pin (\<^verbatim>\<open>GPIO_GetBit\<close>) is set and \<^verbatim>\<open>LOW\<close> if it is clear. Of any
  other pin it returns \<^verbatim>\<open>LOW\<close> with no vendor call made and the hardware as it was; a
  debug build records the invalid pin, a release build changes nothing. \<^verbatim>\<open>digitalWrite\<close>
  to a pin below
  \<^verbatim>\<open>BOARD_NR_GPIO_PINS\<close> calls \<^verbatim>\<open>GPIO_SetBits\<close> for the value \<^verbatim>\<open>HIGH\<close> and
  \<^verbatim>\<open>GPIO_ResetBits\<close> for every other value.
\<close>

theorem digitalRead_digitalWrite:
  "(pin < BOARD_NR_GPIO_PINS brd \<longrightarrow>
      digitalRead b brd pin w =
        (if port_in (hw w) pin then HIGH brd else LOW brd,
         w\<lparr>calls := calls w @ [GPIO_GetBit_call pin]\<rparr>)) \<and>
   (pin \<ge> BOARD_NR_GPIO_PINS brd \<longrightarrow>
      fst (digitalRead b brd pin w) = LOW brd \<and>
      hw (snd (digitalRead b brd pin w)) = hw w \<and>
      calls (snd (digitalRead b brd pin w)) = calls w \<and>
      asserts (snd (digitalRead b brd pin w)) =
        asserts w @ (if b = Debug then [''invalid GPIO pin in digitalRead''] else []) \<and>
      digitalRead Release brd pin w = (LOW brd, w)) \<and>
   (pin < BOARD_NR_GPIO_PINS brd \<longrightarrow>
      digitalWrite b brd pin (HIGH brd) w =
        w\<lparr>hw := (hw w)\<lparr>port_out := (port_out (hw w))(pin := True)\<rparr>,
          calls := calls w @ [GPIO_SetBits_call pin]\<rparr>) \<and>
   (pin < BOARD_NR_GPIO_PINS brd \<and> v \<noteq> HIGH brd \<longrightarrow>
      digitalWrite b brd pin v w =
        w\<lparr>hw := (hw w)\<lparr>port_out := (port_out (hw w))(pin := False)\<rparr>,
          calls := calls w @ [GPIO_ResetBits_call pin]\<rparr>)"
  by (simp add: digitalRead_def digitalWrite_def ASSERT_GPIO_PIN_VALID_eq GPIO_GetBit_def
      GPIO_SetBits_def GPIO_ResetBits_def vendor_def Let_def)

theorem digitalRead_digitalWrite_witness:
  "1 < BOARD_NR_GPIO_PINS example_board \<and>
   fst (digitalRead Debug example_board 1 example_world) = 1 \<and>
   calls (snd (digitalRead Debug example_board 1 example_world)) = [GPIO_GetBit_call 1] \<and>
   BOARD_NR_GPIO_PINS example_board \<le> 7 \<and>
   fst (digitalRead Debug example_board 7 example_world) = 0 \<and>
   calls (snd (digitalRead Debug example_board 7 example_world)) = [] \<and>
   calls (digitalWrite Debug example_board 1 1 example_world) = [GPIO_SetBits_call 1] \<and>
   calls (digitalWrite Debug example_board 1 3 example_world) = [GPIO_ResetBits_call 1]"
proof -
  have pin: "1 < BOARD_NR_GPIO_PINS example_board"
    and beyond: "BOARD_NR_GPIO_PINS example_board \<le> 7"
    and levels: "HIGH example_board = 1" "LOW example_board = 0"
    and input: "port_in (hw example_world) 1"
    and before: "calls example_world = []"
    by (simp_all add: example_defs)
  from digitalRead_digitalWrite [of 1 example_board Debug example_world 3]
    digitalRead_digitalWrite [of 7 example_board Debug example_world 3]
  show ?thesis
    using pin beyond levels input before by simp
qed

section \<open>How failures are handled\<close>







end
